theory Spec2Isabelle
  imports Main "HOL-Library.Word" "HOL-Library.AList" "HOL-Library.Multiset"
begin

section \<open>Data model of package notificator\<close>

text \<open>
  Go's \<^verbatim>\<open>int64\<close> is a 64-bit word. The package only stores, compares and
  zeroes such values.
\<close>

type_synonym int64 = "64 word"

record notificationRecord =
  EcosystemID :: int64
  RoleID :: int64
  RecordsCount :: int64

record lastMessagesKey =
  system :: int64
  user :: int64

text \<open>
  \<^verbatim>\<open>lastMessages.stats\<close> is a Go map that is only looked up, assigned and deleted
  from, never ranged over: a partial function. The mutex of the struct orders
  concurrent calls and has no sequential content.
\<close>

type_synonym lastMessages = "lastMessagesKey \<rightharpoonup> notificationRecord list"

definition newLastMessages :: lastMessages where
  "newLastMessages = Map.empty"

text \<open>\<^verbatim>\<open>res, ok := lm.stats[key]\<close>: a missing key gives the nil slice and false.\<close>

definition lastMessages_get ::
  "lastMessages \<Rightarrow> int64 \<Rightarrow> int64 \<Rightarrow> notificationRecord list \<times> bool" where
  "lastMessages_get lm sys uid =
     (case lm \<lparr>system = sys, user = uid\<rparr> of
        Some res \<Rightarrow> (res, True)
      | None \<Rightarrow> ([], False))"

definition lastMessages_set ::
  "lastMessages \<Rightarrow> int64 \<Rightarrow> int64 \<Rightarrow> notificationRecord list \<Rightarrow> lastMessages" where
  "lastMessages_set lm sys uid newStats = lm(\<lparr>system = sys, user = uid\<rparr> \<mapsto> newStats)"

definition lastMessages_delete :: "lastMessages \<Rightarrow> int64 \<Rightarrow> int64 \<Rightarrow> lastMessages" where
  "lastMessages_delete lm sys uid = lm(\<lparr>system = sys, user = uid\<rparr> := None)"

section \<open>The diff function\<close>

text \<open>
  The inner loop of \<^verbatim>\<open>statsChanged\<close> over \<^verbatim>\<open>source\<close>, for one record of
  \<^verbatim>\<open>new\<close>. The flag \<^verbatim>\<open>newRole\<close> is the loop's state. \<open>None\<close> is the
  \<^verbatim>\<open>return true\<close> from inside the loop; \<open>Some b\<close> is the loop running to its
  end with \<^verbatim>\<open>newRole = b\<close>.
\<close>

fun statsChanged_source :: "notificationRecord \<Rightarrow> notificationRecord list \<Rightarrow> bool \<Rightarrow> bool option" where
  "statsChanged_source nRec [] newRole = Some newRole"
| "statsChanged_source nRec (sRec # source) newRole =
     (if RoleID sRec = RoleID nRec then
        (if RecordsCount sRec \<noteq> RecordsCount nRec then None
         else statsChanged_source nRec source False)
      else statsChanged_source nRec source newRole)"

text \<open>The outer loop over \<^verbatim>\<open>new\<close>; falling off its end is \<^verbatim>\<open>return false\<close>.\<close>

fun statsChanged_new :: "notificationRecord list \<Rightarrow> notificationRecord list \<Rightarrow> bool" where
  "statsChanged_new source [] = False"
| "statsChanged_new source (nRec # new) =
     (case statsChanged_source nRec source True of
        None \<Rightarrow> True
      | Some newRole \<Rightarrow> (if newRole then True else statsChanged_new source new))"

definition statsChanged :: "notificationRecord list \<Rightarrow> notificationRecord list \<Rightarrow> bool" where
  "statsChanged source new =
     (if length source \<noteq> length new then True
      else if length new = 0 then False
      else statsChanged_new source new)"

section \<open>The environment: database, serializer, publisher, map iteration\<close>

text \<open>
  The package calls four functions that are not part of it, and ranges over Go maps,
  whose iteration order the runtime chooses. All of these are parameters of the model:
  \<^item> \<^verbatim>\<open>model.GetNotificationsCount\<close> returns rows and an error (\<open>None\<close> is Go's nil error);
  \<^item> \<^verbatim>\<open>converter.StrToInt64\<close> turns a column text into an \<^verbatim>\<open>int64\<close>;
  \<^item> \<^verbatim>\<open>json.Marshal\<close> returns the bytes and an error;
  \<^item> \<^verbatim>\<open>publisher.Write\<close> returns \<^verbatim>\<open>ok\<close> and an error;
  \<^item> \<open>rangeUsers\<close> and \<open>rangeStats\<close> give the entries of a map in the order the
    \<^verbatim>\<open>range\<close> statement visits them.
\<close>

datatype error = Error string

text \<open>A row is a \<^verbatim>\<open>map[string]string\<close>; indexing a missing key yields the empty string.\<close>

type_synonym row = "string \<rightharpoonup> string"

definition rowField :: "row \<Rightarrow> string \<Rightarrow> string" where
  "rowField r k = (case r k of Some v \<Rightarrow> v | None \<Rightarrow> [])"

text \<open>
  \<^verbatim>\<open>map[int64]*[]notificationRecord\<close> and \<^verbatim>\<open>map[int64]*[]int64\<close> are ranged over, so
  they are association lists with one entry per key. The values are pointers to slices;
  \<^verbatim>\<open>parseRecipientNotification\<close> stores no nil pointer, so a value is modelled by the
  slice it points to, and the callers' tests for a nil pointer are tests for a missing key.
\<close>

type_synonym recipientStats = "(int64 \<times> notificationRecord list) list"

type_synonym roster = "(int64 \<times> int64 list) list"

record env =
  GetNotificationsCount :: "int64 \<Rightarrow> int64 list \<Rightarrow> row list \<times> error option"
  StrToInt64 :: "string \<Rightarrow> int64"
  Marshal :: "notificationRecord list \<Rightarrow> string \<times> error option"
  Write :: "int64 \<Rightarrow> string \<Rightarrow> bool \<times> error option"
  rangeUsers :: "roster \<Rightarrow> roster"
  rangeStats :: "recipientStats \<Rightarrow> recipientStats"

text \<open>
  What a run does to the outside and to the cache is recorded as a list of events, in
  the order of the calls: the database query, the three cache operations, the call of
  the publisher with its payload, and the log entries with their \<^verbatim>\<open>type\<close> field.
\<close>

datatype logType = DBError | JSONMarshallError | IOError | CentrifugoError

datatype event =
    DBQuery int64 "int64 list"
  | CacheGet int64 int64
  | CacheSet int64 int64 "notificationRecord list"
  | CacheDelete int64 int64
  | PublisherWrite int64 string
  | LogError logType

section \<open>The roster\<close>

definition AddUser :: "int64 \<Rightarrow> int64 \<Rightarrow> roster \<Rightarrow> roster" where
  "AddUser userID systemID systemUsers =
     (case map_of systemUsers systemID of
        Some val \<Rightarrow> AList.update systemID (val @ [userID]) systemUsers
      | None \<Rightarrow> systemUsers @ [(systemID, [userID])])"

section \<open>The aggregator\<close>

definition rowRecipientID :: "env \<Rightarrow> row \<Rightarrow> int64" where
  "rowRecipientID env r = StrToInt64 env (rowField r ''recipient_id'')"

definition rowRoleID :: "env \<Rightarrow> row \<Rightarrow> int64" where
  "rowRoleID env r = StrToInt64 env (rowField r ''role_id'')"

definition rowNotification :: "env \<Rightarrow> int64 \<Rightarrow> row \<Rightarrow> notificationRecord" where
  "rowNotification env systemID r =
     \<lparr>EcosystemID = systemID,
      RoleID = rowRoleID env r,
      RecordsCount = StrToInt64 env (rowField r ''cnt'')\<rparr>"

text \<open>The loop of \<^verbatim>\<open>parseRecipientNotification\<close> over the rows; the map is its state.\<close>

fun parseRecipientNotification_rows ::
  "env \<Rightarrow> int64 \<Rightarrow> row list \<Rightarrow> recipientStats \<Rightarrow> recipientStats" where
  "parseRecipientNotification_rows env systemID [] recipientNotifications =
     recipientNotifications"
| "parseRecipientNotification_rows env systemID (r # rows) recipientNotifications =
     (let recipientID = rowRecipientID env r;
          roleNotifications = rowNotification env systemID r
      in case map_of recipientNotifications recipientID of
           Some nr \<Rightarrow>
             parseRecipientNotification_rows env systemID rows
               (AList.update recipientID (nr @ [roleNotifications]) recipientNotifications)
         | None \<Rightarrow>
             parseRecipientNotification_rows env systemID rows
               (recipientNotifications @ [(recipientID, [roleNotifications])]))"

definition parseRecipientNotification :: "env \<Rightarrow> row list \<Rightarrow> int64 \<Rightarrow> recipientStats" where
  "parseRecipientNotification env rows systemID =
     parseRecipientNotification_rows env systemID rows []"

definition getEcosystemNotificationStats ::
  "env \<Rightarrow> int64 \<Rightarrow> int64 list \<Rightarrow> (recipientStats \<times> error option) \<times> event list" where
  "getEcosystemNotificationStats env ecosystemID users =
     (let (result, err) = GetNotificationsCount env ecosystemID users
      in if err \<noteq> None
         then (([], err), [DBQuery ecosystemID users, LogError DBError])
         else ((parseRecipientNotification env result ecosystemID, None),
               [DBQuery ecosystemID users]))"

section \<open>The publisher boundary\<close>

text \<open>
  \<^verbatim>\<open>sendUserStats\<close> has no return statement: after each of its three tests it goes
  on to the next statement.
\<close>

definition sendUserStats :: "env \<Rightarrow> int64 \<Rightarrow> notificationRecord list \<Rightarrow> event list" where
  "sendUserStats env uid stats =
     (let (rawStats, err) = Marshal env stats;
          marshalLog = (if err \<noteq> None then [LogError JSONMarshallError] else []);
          (ok, err') = Write env uid rawStats;
          ioLog = (if err' \<noteq> None then [LogError IOError] else []);
          okLog = (if \<not> ok then [LogError CentrifugoError] else [])
      in marshalLog @ [PublisherWrite uid rawStats] @ ioLog @ okLog)"

section \<open>The per-ecosystem update\<close>

text \<open>
  \<^verbatim>\<open>for i := range oldStats { oldStats[i].RecordsCount = 0 }\<close>. The slice written to
  is the one stored in the cache under the key that the next statement deletes; no other
  entry and no list of the fresh statistics shares its array, so lists are values here.
\<close>

definition zeroRecordsCount :: "notificationRecord list \<Rightarrow> notificationRecord list" where
  "zeroRecordsCount oldStats =
     foldl (\<lambda>stats i. stats[i := (stats ! i)\<lparr>RecordsCount := 0\<rparr>]) oldStats
       [0..<length oldStats]"

text \<open>The body of the loop over \<^verbatim>\<open>users\<close>, for one user.\<close>

definition UpdateNotifications_user ::
  "env \<Rightarrow> int64 \<Rightarrow> recipientStats \<Rightarrow> int64 \<Rightarrow> lastMessages \<Rightarrow> lastMessages \<times> event list" where
  "UpdateNotifications_user env ecosystemID notificationsStats uid lm =
     (let (oldStats, _) = lastMessages_get lm ecosystemID uid;
          newStats = (case map_of notificationsStats uid of Some ns \<Rightarrow> ns | None \<Rightarrow> [])
      in if \<not> statsChanged oldStats newStats then (lm, [CacheGet ecosystemID uid])
         else if length newStats = 0 then
           (let zeroed = zeroRecordsCount oldStats
            in (lastMessages_delete lm ecosystemID uid,
                [CacheGet ecosystemID uid, CacheDelete ecosystemID uid]
                  @ sendUserStats env uid zeroed))
         else
           (lastMessages_set lm ecosystemID uid newStats,
            [CacheGet ecosystemID uid, CacheSet ecosystemID uid newStats]
              @ sendUserStats env uid newStats))"

fun UpdateNotifications_users ::
  "env \<Rightarrow> int64 \<Rightarrow> recipientStats \<Rightarrow> int64 list \<Rightarrow> lastMessages \<Rightarrow> lastMessages \<times> event list" where
  "UpdateNotifications_users env ecosystemID notificationsStats [] lm = (lm, [])"
| "UpdateNotifications_users env ecosystemID notificationsStats (uid # users) lm =
     (let (lm1, ev1) = UpdateNotifications_user env ecosystemID notificationsStats uid lm;
          (lm2, ev2) = UpdateNotifications_users env ecosystemID notificationsStats users lm1
      in (lm2, ev1 @ ev2))"

definition UpdateNotifications ::
  "env \<Rightarrow> int64 \<Rightarrow> int64 list \<Rightarrow> lastMessages \<Rightarrow> lastMessages \<times> event list" where
  "UpdateNotifications env ecosystemID users lm =
     (let ((notificationsStats, err), ev0) = getEcosystemNotificationStats env ecosystemID users
      in if err \<noteq> None then (lm, ev0)
         else
           (let (lm', ev1) = UpdateNotifications_users env ecosystemID notificationsStats users lm
            in (lm', ev0 @ ev1)))"

section \<open>The cycle drivers\<close>

fun SendNotifications_range :: "env \<Rightarrow> roster \<Rightarrow> lastMessages \<Rightarrow> lastMessages \<times> event list" where
  "SendNotifications_range env [] lm = (lm, [])"
| "SendNotifications_range env ((ecosystemID, users) # rest) lm =
     (let (lm1, ev1) = UpdateNotifications env ecosystemID users lm;
          (lm2, ev2) = SendNotifications_range env rest lm1
      in (lm2, ev1 @ ev2))"

definition SendNotifications :: "env \<Rightarrow> roster \<Rightarrow> lastMessages \<Rightarrow> lastMessages \<times> event list" where
  "SendNotifications env systemUsers lm =
     SendNotifications_range env (rangeUsers env systemUsers) lm"

text \<open>The inner loop of \<^verbatim>\<open>SendNotificationsByRequest\<close> over the statistics of one ecosystem.\<close>

fun SendNotificationsByRequest_stats :: "env \<Rightarrow> recipientStats \<Rightarrow> event list" where
  "SendNotificationsByRequest_stats env [] = []"
| "SendNotificationsByRequest_stats env ((uid, notifications) # rest) =
     sendUserStats env uid notifications @ SendNotificationsByRequest_stats env rest"

fun SendNotificationsByRequest_range ::
  "env \<Rightarrow> roster \<Rightarrow> lastMessages \<Rightarrow> lastMessages \<times> event list" where
  "SendNotificationsByRequest_range env [] lm = (lm, [])"
| "SendNotificationsByRequest_range env ((ecosystemID, users) # rest) lm =
     (let ((stats, err), ev0) = getEcosystemNotificationStats env ecosystemID users;
          ev1 = (if err \<noteq> None then []
                 else SendNotificationsByRequest_stats env (rangeStats env stats));
          (lm', ev2) = SendNotificationsByRequest_range env rest lm
      in (lm', ev0 @ ev1 @ ev2))"

definition SendNotificationsByRequest ::
  "env \<Rightarrow> roster \<Rightarrow> lastMessages \<Rightarrow> lastMessages \<times> event list" where
  "SendNotificationsByRequest env systemUsers lm =
     SendNotificationsByRequest_range env (rangeUsers env systemUsers) lm"

section \<open>Observations on caches and event lists\<close>

text \<open>The invariant of the cache: no key is mapped to the empty list.\<close>

definition noEmptyEntries :: "lastMessages \<Rightarrow> bool" where
  "noEmptyEntries lm \<longleftrightarrow> (\<forall>k. lm k \<noteq> Some [])"

text \<open>The events that read or change the cache.\<close>

fun isCacheAccess :: "event \<Rightarrow> bool" where
  "isCacheAccess (CacheGet sys uid) = True"
| "isCacheAccess (CacheSet sys uid recs) = True"
| "isCacheAccess (CacheDelete sys uid) = True"
| "isCacheAccess (DBQuery sys users) = False"
| "isCacheAccess (PublisherWrite uid payload) = False"
| "isCacheAccess (LogError t) = False"

text \<open>
  The events that change something for one user of one ecosystem: a write or a delete of
  that user's cache entry, and a call of the publisher for that user.
\<close>

fun writesFor :: "int64 \<Rightarrow> int64 \<Rightarrow> event \<Rightarrow> bool" where
  "writesFor ecosystemID uid (CacheSet sys u recs) = (sys = ecosystemID \<and> u = uid)"
| "writesFor ecosystemID uid (CacheDelete sys u) = (sys = ecosystemID \<and> u = uid)"
| "writesFor ecosystemID uid (PublisherWrite u payload) = (u = uid)"
| "writesFor ecosystemID uid (CacheGet sys u) = False"
| "writesFor ecosystemID uid (DBQuery sys users) = False"
| "writesFor ecosystemID uid (LogError t) = False"

section \<open>A concrete environment\<close>

text \<open>
  An environment on which the model is evaluated. Ecosystem 1 has the three rows of the
  aggregation example, ecosystem 2 has no rows, and every other query fails. The
  serializer writes one digit per field, the publisher accepts everything, and the maps
  are ranged over in the order of their entries.
\<close>

definition exampleStrToInt64 :: "string \<Rightarrow> int64" where
  \<comment> \<open>Modelled from the spec: \<^verbatim>\<open>converter.StrToInt64\<close> is not among the sources; the
      columns hold integers in text form. This instance of the parameter reads the
      decimal texts used below and gives 0 for any other text.\<close>
  "exampleStrToInt64 s =
     (if s = ''1'' then 1 else if s = ''2'' then 2 else if s = ''3'' then 3 else 0)"

definition exampleRows :: "row list" where
  "exampleRows =
     [[''recipient_id'' \<mapsto> ''1'', ''role_id'' \<mapsto> ''1'', ''cnt'' \<mapsto> ''2''],
      [''recipient_id'' \<mapsto> ''1'', ''role_id'' \<mapsto> ''2'', ''cnt'' \<mapsto> ''3''],
      [''recipient_id'' \<mapsto> ''2'', ''role_id'' \<mapsto> ''1'', ''cnt'' \<mapsto> ''1'']]"

definition exampleGetNotificationsCount :: "int64 \<Rightarrow> int64 list \<Rightarrow> row list \<times> error option" where
  "exampleGetNotificationsCount ecosystemID users =
     (if ecosystemID = 1 then (exampleRows, None)
      else if ecosystemID = 2 then ([], None)
      else ([], Some (Error ''query failed'')))"

definition exampleDigit :: "int64 \<Rightarrow> string" where
  "exampleDigit w =
     (if w = 0 then ''0'' else if w = 1 then ''1'' else if w = 2 then ''2''
      else if w = 3 then ''3'' else ''9'')"

definition exampleMarshal :: "notificationRecord list \<Rightarrow> string \<times> error option" where
  "exampleMarshal stats =
     (concat (map (\<lambda>r. exampleDigit (EcosystemID r) @ exampleDigit (RoleID r)
                          @ exampleDigit (RecordsCount r) @ '';'') stats),
      None)"

definition exampleEnv :: env where
  "exampleEnv =
     \<lparr>GetNotificationsCount = exampleGetNotificationsCount,
      StrToInt64 = exampleStrToInt64,
      Marshal = exampleMarshal,
      Write = (\<lambda>uid payload. (True, None)),
      rangeUsers = (\<lambda>m. m),
      rangeStats = (\<lambda>m. m)\<rparr>"

text \<open>The same environment with a serializer that fails, returning no bytes.\<close>

definition failingMarshalEnv :: env where
  "failingMarshalEnv = exampleEnv\<lparr>Marshal := (\<lambda>stats. ([], Some (Error ''marshal failed'')))\<rparr>"

section \<open>Properties of the diff function\<close>

lemma statsChanged_source_None:
  "statsChanged_source nRec source b = None \<longleftrightarrow>
     (\<exists>s\<in>set source. RoleID s = RoleID nRec \<and> RecordsCount s \<noteq> RecordsCount nRec)"
  by (induction source arbitrary: b) auto

lemma statsChanged_source_Some:
  "statsChanged_source nRec source b = Some c \<Longrightarrow>
     c = (b \<and> (\<forall>s\<in>set source. RoleID s \<noteq> RoleID nRec))"
  by (induction source arbitrary: b) (auto split: if_splits)

lemma statsChanged_new_iff:
  "statsChanged_new source new \<longleftrightarrow>
     (\<exists>n\<in>set new.
        (\<forall>s\<in>set source. RoleID s \<noteq> RoleID n) \<or>
        (\<exists>s\<in>set source. RoleID s = RoleID n \<and> RecordsCount s \<noteq> RecordsCount n))"
proof (induction new)
  case Nil
  show ?case by simp
next
  case (Cons nRec new)
  show ?case
  proof (cases "statsChanged_source nRec source True")
    case None
    then have "\<exists>s\<in>set source. RoleID s = RoleID nRec \<and> RecordsCount s \<noteq> RecordsCount nRec"
      by (simp add: statsChanged_source_None)
    with None show ?thesis by auto
  next
    case (Some c)
    then have c: "c = (\<forall>s\<in>set source. RoleID s \<noteq> RoleID nRec)"
      using statsChanged_source_Some by fastforce
    have nodiff: "\<not> (\<exists>s\<in>set source. RoleID s = RoleID nRec \<and> RecordsCount s \<noteq> RecordsCount nRec)"
      using Some statsChanged_source_None [of nRec source True] by simp
    show ?thesis
      using Some c nodiff Cons.IH by auto
  qed
qed

text \<open>
  C1. \<^verbatim>\<open>statsChanged(old, new)\<close> is true when the lengths differ; otherwise false
  when \<^verbatim>\<open>new\<close> is empty; otherwise true exactly when some record of \<^verbatim>\<open>new\<close>
  has a roleID that no record of \<^verbatim>\<open>old\<close> has, or a roleID that a record of
  \<^verbatim>\<open>old\<close> has with a different recordsCount; and false when no record of
  \<^verbatim>\<open>new\<close> does.
\<close>

theorem statsChanged_spec:
  "statsChanged old new =
     (if length old \<noteq> length new then True
      else if length new = 0 then False
      else (\<exists>n\<in>set new.
              (\<forall>s\<in>set old. RoleID s \<noteq> RoleID n) \<or>
              (\<exists>s\<in>set old. RoleID s = RoleID n \<and> RecordsCount s \<noteq> RecordsCount n)))"
  by (simp add: statsChanged_def statsChanged_new_iff)

theorem statsChanged_spec_witness:
  "statsChanged
     [\<lparr>EcosystemID = 1, RoleID = 1, RecordsCount = 5\<rparr>]
     [\<lparr>EcosystemID = 1, RoleID = 1, RecordsCount = 6\<rparr>] = True
   \<and> statsChanged
     [\<lparr>EcosystemID = 1, RoleID = 1, RecordsCount = 5\<rparr>]
     [\<lparr>EcosystemID = 1, RoleID = 2, RecordsCount = 5\<rparr>] = True
   \<and> statsChanged
     [\<lparr>EcosystemID = 1, RoleID = 1, RecordsCount = 5\<rparr>]
     [\<lparr>EcosystemID = 1, RoleID = 1, RecordsCount = 5\<rparr>] = False
   \<and> statsChanged [] [\<lparr>EcosystemID = 1, RoleID = 1, RecordsCount = 1\<rparr>] = True
   \<and> statsChanged [] [] = False"
  using
    statsChanged_spec [of "[\<lparr>EcosystemID = 1, RoleID = 1, RecordsCount = 5\<rparr>]"
                          "[\<lparr>EcosystemID = 1, RoleID = 1, RecordsCount = 6\<rparr>]"]
    statsChanged_spec [of "[\<lparr>EcosystemID = 1, RoleID = 1, RecordsCount = 5\<rparr>]"
                          "[\<lparr>EcosystemID = 1, RoleID = 2, RecordsCount = 5\<rparr>]"]
    statsChanged_spec [of "[\<lparr>EcosystemID = 1, RoleID = 1, RecordsCount = 5\<rparr>]"
                          "[\<lparr>EcosystemID = 1, RoleID = 1, RecordsCount = 5\<rparr>]"]
    statsChanged_spec [of "[]" "[\<lparr>EcosystemID = 1, RoleID = 1, RecordsCount = 1\<rparr>]"]
    statsChanged_spec [of "[]" "[]"]
  by simp

text \<open>
  C2 (as stated, refuted). Two records of one list with the same roleID and different
  counts make the list differ from itself: the record of \<^verbatim>\<open>new\<close> with count 5 meets
  the record of \<^verbatim>\<open>source\<close> with count 6 under the same roleID.
\<close>

theorem statsChanged_self_counterexample:
  "statsChanged
     [\<lparr>EcosystemID = 1, RoleID = 1, RecordsCount = 5\<rparr>,
      \<lparr>EcosystemID = 1, RoleID = 1, RecordsCount = 6\<rparr>]
     [\<lparr>EcosystemID = 1, RoleID = 1, RecordsCount = 5\<rparr>,
      \<lparr>EcosystemID = 1, RoleID = 1, RecordsCount = 6\<rparr>]"
  by (simp add: statsChanged_def)

text \<open>
  C2 (amended). For record lists \<^verbatim>\<open>old\<close> and \<^verbatim>\<open>new\<close> that are permutations of
  one another, \<^verbatim>\<open>statsChanged(old, new)\<close> is false exactly when no two records of
  the list share a roleID with different recordsCounts; so it is false for every
  permutation of a list whose roleIDs are pairwise distinct, and \<^verbatim>\<open>statsChanged(x, x)\<close>
  is false for every such list.
\<close>

theorem statsChanged_permutation:
  assumes "mset old = mset new"
  shows "statsChanged old new \<longleftrightarrow>
           (\<exists>a\<in>set new. \<exists>b\<in>set new. RoleID a = RoleID b \<and> RecordsCount a \<noteq> RecordsCount b)"
proof -
  have len: "length old = length new"
    using assms by (rule mset_eq_length)
  have sets: "set old = set new"
    using assms by (rule mset_eq_setD)
  show ?thesis
  proof (cases "new = []")
    case True
    then show ?thesis by (simp add: statsChanged_def len)
  next
    case False
    then have "statsChanged old new = statsChanged_new old new"
      by (simp add: statsChanged_def len)
    also have "\<dots> \<longleftrightarrow>
        (\<exists>n\<in>set new. \<exists>s\<in>set new. RoleID s = RoleID n \<and> RecordsCount s \<noteq> RecordsCount n)"
      unfolding statsChanged_new_iff sets by blast
    also have "\<dots> \<longleftrightarrow>
        (\<exists>a\<in>set new. \<exists>b\<in>set new. RoleID a = RoleID b \<and> RecordsCount a \<noteq> RecordsCount b)"
      by blast
    finally show ?thesis .
  qed
qed

theorem statsChanged_permutation_witness:
  "mset [\<lparr>EcosystemID = 1, RoleID = 1, RecordsCount = 5\<rparr>,
         \<lparr>EcosystemID = 1, RoleID = 2, RecordsCount = (6::int64)\<rparr>]
     = mset [\<lparr>EcosystemID = 1, RoleID = 2, RecordsCount = 6\<rparr>,
             \<lparr>EcosystemID = 1, RoleID = 1, RecordsCount = 5\<rparr>]
   \<and> \<not> statsChanged
     [\<lparr>EcosystemID = 1, RoleID = 1, RecordsCount = 5\<rparr>,
      \<lparr>EcosystemID = 1, RoleID = 2, RecordsCount = 6\<rparr>]
     [\<lparr>EcosystemID = 1, RoleID = 2, RecordsCount = 6\<rparr>,
      \<lparr>EcosystemID = 1, RoleID = 1, RecordsCount = 5\<rparr>]"
proof -
  have h: "mset [\<lparr>EcosystemID = 1, RoleID = 1, RecordsCount = 5\<rparr>,
                 \<lparr>EcosystemID = 1, RoleID = 2, RecordsCount = (6::int64)\<rparr>]
     = mset [\<lparr>EcosystemID = 1, RoleID = 2, RecordsCount = 6\<rparr>,
             \<lparr>EcosystemID = 1, RoleID = 1, RecordsCount = 5\<rparr>]"
    by simp
  show ?thesis
    using h statsChanged_permutation [OF h] by simp
qed

section \<open>Properties of the aggregator\<close>

lemmas example_defs =
  exampleEnv_def failingMarshalEnv_def exampleStrToInt64_def exampleRows_def
  exampleGetNotificationsCount_def exampleDigit_def exampleMarshal_def
  rowField_def rowRecipientID_def rowRoleID_def rowNotification_def

text \<open>
  What the loop leaves under a key: the list it found there, extended by the records of
  the rows of that recipient, in the order of the rows.
\<close>

lemma parseRecipientNotification_rows_map_of:
  "map_of (parseRecipientNotification_rows env systemID rows acc) k =
     (case map_of acc k of
        Some nr \<Rightarrow>
          Some (nr @ map (rowNotification env systemID)
                       (filter (\<lambda>r. rowRecipientID env r = k) rows))
      | None \<Rightarrow>
          (if filter (\<lambda>r. rowRecipientID env r = k) rows = [] then None
           else Some (map (rowNotification env systemID)
                        (filter (\<lambda>r. rowRecipientID env r = k) rows))))"
proof (induction rows arbitrary: acc)
  case Nil
  show ?case by (simp split: option.splits)
next
  case (Cons r rows)
  show ?case
  proof (cases "map_of acc (rowRecipientID env r)")
    case None
    then show ?thesis
      by (simp add: Cons.IH Let_def map_add_def split: option.splits)
  next
    case (Some nr)
    then show ?thesis
      by (auto simp add: Cons.IH Let_def update_conv' split: option.splits)
  qed
qed

lemma parseRecipientNotification_rows_distinct:
  "distinct (map fst acc) \<Longrightarrow>
   distinct (map fst (parseRecipientNotification_rows env systemID rows acc))"
proof (induction rows arbitrary: acc)
  case Nil
  then show ?case by simp
next
  case (Cons r rows)
  show ?case
  proof (cases "map_of acc (rowRecipientID env r)")
    case None
    then have "rowRecipientID env r \<notin> fst ` set acc"
      by (simp add: map_of_eq_None_iff)
    with Cons.prems None show ?thesis
      by (simp add: Let_def Cons.IH)
  next
    case (Some nr)
    with Cons.prems show ?thesis
      by (simp add: Let_def Cons.IH distinct_update)
  qed
qed

lemma parseRecipientNotification_map_of:
  "map_of (parseRecipientNotification env rows systemID) k =
     (if filter (\<lambda>r. rowRecipientID env r = k) rows = [] then None
      else Some (map (rowNotification env systemID)
                   (filter (\<lambda>r. rowRecipientID env r = k) rows)))"
  by (simp add: parseRecipientNotification_def parseRecipientNotification_rows_map_of)

lemma parseRecipientNotification_distinct:
  "distinct (map fst (parseRecipientNotification env rows systemID))"
  by (simp add: parseRecipientNotification_def parseRecipientNotification_rows_distinct)

lemma map_RoleID_rowNotification:
  "map RoleID (map (rowNotification env systemID) rs) = map (rowRoleID env) rs"
  by (induction rs) (simp_all add: rowNotification_def)

text \<open>
  C3 (as stated, refuted). Two rows of recipient 1 that both carry role 1 give two
  records with roleID 1 for that recipient, not one.
\<close>

theorem parseRecipientNotification_counterexample:
  "parseRecipientNotification exampleEnv
     [[''recipient_id'' \<mapsto> ''1'', ''role_id'' \<mapsto> ''1'', ''cnt'' \<mapsto> ''2''],
      [''recipient_id'' \<mapsto> ''1'', ''role_id'' \<mapsto> ''1'', ''cnt'' \<mapsto> ''3'']] 1
   = [(1, [\<lparr>EcosystemID = 1, RoleID = 1, RecordsCount = 2\<rparr>,
           \<lparr>EcosystemID = 1, RoleID = 1, RecordsCount = 3\<rparr>])]"
  by (simp add: example_defs parseRecipientNotification_def)

text \<open>
  C3 (amended). For every list of rows, the aggregator's output has one entry per
  recipientID that occurs in the rows and none for any other; the entry of a recipient
  is the list holding exactly one record per row of that recipient, in the order of the
  rows, each with the ecosystem given and the roleID of its row. Hence, when the rows of
  a recipient carry pairwise distinct roleIDs, the list has exactly one record per
  distinct roleID, in the order the roles were first encountered.
\<close>

theorem parseRecipientNotification_per_row:
  "map_of (parseRecipientNotification env rows systemID) recipientID =
     (if filter (\<lambda>r. rowRecipientID env r = recipientID) rows = [] then None
      else Some (map (rowNotification env systemID)
                   (filter (\<lambda>r. rowRecipientID env r = recipientID) rows)))
   \<and> distinct (map fst (parseRecipientNotification env rows systemID))
   \<and> map RoleID (map (rowNotification env systemID)
                   (filter (\<lambda>r. rowRecipientID env r = recipientID) rows))
       = map (rowRoleID env) (filter (\<lambda>r. rowRecipientID env r = recipientID) rows)
   \<and> (distinct (map (rowRoleID env) (filter (\<lambda>r. rowRecipientID env r = recipientID) rows))
        \<longrightarrow> distinct (map RoleID (map (rowNotification env systemID)
                   (filter (\<lambda>r. rowRecipientID env r = recipientID) rows))))"
  by (simp only: parseRecipientNotification_map_of parseRecipientNotification_distinct
        map_RoleID_rowNotification simp_thms)

theorem parseRecipientNotification_per_row_witness:
  "map_of (parseRecipientNotification exampleEnv exampleRows 1) 1 =
     Some [\<lparr>EcosystemID = 1, RoleID = 1, RecordsCount = 2\<rparr>,
           \<lparr>EcosystemID = 1, RoleID = 2, RecordsCount = 3\<rparr>]
   \<and> map_of (parseRecipientNotification exampleEnv exampleRows 1) 2 =
     Some [\<lparr>EcosystemID = 1, RoleID = 1, RecordsCount = 1\<rparr>]
   \<and> map_of (parseRecipientNotification exampleEnv exampleRows 1) 3 = None
   \<and> distinct (map (rowRoleID exampleEnv)
        (filter (\<lambda>r. rowRecipientID exampleEnv r = 1) exampleRows))"
  using parseRecipientNotification_per_row [of exampleEnv exampleRows 1 1]
        parseRecipientNotification_per_row [of exampleEnv exampleRows 1 2]
        parseRecipientNotification_per_row [of exampleEnv exampleRows 1 3]
  by (simp add: example_defs)

section \<open>Properties of the publisher boundary and of one step of the update\<close>

lemma zero_prefix:
  "n \<le> length xs \<Longrightarrow>
   foldl (\<lambda>stats i. stats[i := (stats ! i)\<lparr>RecordsCount := 0\<rparr>]) xs [0..<n] =
     map (\<lambda>r. r\<lparr>RecordsCount := 0\<rparr>) (take n xs) @ drop n xs"
proof (induction n)
  case 0
  show ?case by simp
next
  case (Suc n)
  then have n: "n < length xs" by simp
  have "(map (\<lambda>r. r\<lparr>RecordsCount := 0\<rparr>) (take n xs) @ drop n xs)
          [n := ((map (\<lambda>r. r\<lparr>RecordsCount := 0\<rparr>) (take n xs) @ drop n xs) ! n)\<lparr>RecordsCount := 0\<rparr>]
        = map (\<lambda>r. r\<lparr>RecordsCount := 0\<rparr>) (take (Suc n) xs) @ drop (Suc n) xs"
    using n
    by (simp add: list_update_append nth_append take_Suc_conv_app_nth
          Cons_nth_drop_Suc [symmetric])
  with Suc show ?case by simp
qed

lemma zeroRecordsCount_map:
  "zeroRecordsCount oldStats = map (\<lambda>r. r\<lparr>RecordsCount := 0\<rparr>) oldStats"
  by (simp add: zeroRecordsCount_def zero_prefix)

lemma sendUserStats_writesFor:
  "filter (writesFor ecosystemID u) (sendUserStats env uid stats) =
     (if uid = u then [PublisherWrite uid (fst (Marshal env stats))] else [])"
  by (auto simp add: sendUserStats_def Let_def case_prod_beta)

lemma sendUserStats_isCacheAccess:
  "filter isCacheAccess (sendUserStats env uid stats) = []"
  by (simp add: sendUserStats_def Let_def case_prod_beta)

lemma sendUserStats_CacheSet:
  "CacheSet s u recs \<notin> set (sendUserStats env uid stats)"
  by (simp add: sendUserStats_def Let_def case_prod_beta)

lemma sendUserStats_PublisherWrite:
  "PublisherWrite u p \<in> set (sendUserStats env uid stats) \<longleftrightarrow>
     u = uid \<and> p = fst (Marshal env stats)"
  by (auto simp add: sendUserStats_def Let_def case_prod_beta)

lemma statsChanged_Nil_right: "statsChanged old [] \<longleftrightarrow> old \<noteq> []"
  by (simp add: statsChanged_def)

lemma statsChanged_Nil_Nil: "\<not> statsChanged [] []"
  by (simp add: statsChanged_def)

lemma user_other_key:
  "k \<noteq> \<lparr>system = ecosystemID, user = uid\<rparr> \<Longrightarrow>
   fst (UpdateNotifications_user env ecosystemID stats uid lm) k = lm k"
  by (simp add: UpdateNotifications_user_def Let_def lastMessages_set_def
        lastMessages_delete_def case_prod_beta)

lemma user_other_writes:
  "u \<noteq> uid \<Longrightarrow>
   filter (writesFor ecosystemID u)
     (snd (UpdateNotifications_user env ecosystemID stats uid lm)) = []"
  by (simp add: UpdateNotifications_user_def Let_def sendUserStats_writesFor
        case_prod_beta)

lemma user_unchanged:
  "\<not> statsChanged (fst (lastMessages_get lm ecosystemID uid))
       (case map_of stats uid of Some ns \<Rightarrow> ns | None \<Rightarrow> []) \<Longrightarrow>
   UpdateNotifications_user env ecosystemID stats uid lm = (lm, [CacheGet ecosystemID uid])"
  by (simp add: UpdateNotifications_user_def Let_def case_prod_beta)

lemma user_all_clear:
  "lm \<lparr>system = ecosystemID, user = uid\<rparr> = Some oldStats \<Longrightarrow> oldStats \<noteq> [] \<Longrightarrow>
   map_of stats uid = None \<Longrightarrow>
   UpdateNotifications_user env ecosystemID stats uid lm =
     (lm(\<lparr>system = ecosystemID, user = uid\<rparr> := None),
      [CacheGet ecosystemID uid, CacheDelete ecosystemID uid]
        @ sendUserStats env uid (zeroRecordsCount oldStats))"
  by (simp add: UpdateNotifications_user_def Let_def lastMessages_get_def
        lastMessages_delete_def statsChanged_Nil_right)

lemma user_noEmptyEntries:
  "noEmptyEntries lm \<Longrightarrow>
   noEmptyEntries (fst (UpdateNotifications_user env ecosystemID stats uid lm))"
  by (auto simp add: UpdateNotifications_user_def Let_def noEmptyEntries_def
        lastMessages_set_def lastMessages_delete_def case_prod_beta)

lemma user_CacheSet_nonempty:
  "CacheSet s u recs \<in> set (snd (UpdateNotifications_user env ecosystemID stats uid lm)) \<Longrightarrow>
   recs \<noteq> []"
  by (auto simp add: UpdateNotifications_user_def Let_def sendUserStats_CacheSet
        case_prod_beta split: if_splits)

section \<open>Properties of the loop over the users\<close>

lemma users_noEmptyEntries:
  "noEmptyEntries lm \<Longrightarrow>
   noEmptyEntries (fst (UpdateNotifications_users env e stats users lm))"
  by (induction users arbitrary: lm) (simp_all add: case_prod_beta user_noEmptyEntries)

lemma users_CacheSet_nonempty:
  "CacheSet s u recs \<in> set (snd (UpdateNotifications_users env e stats users lm)) \<Longrightarrow>
   recs \<noteq> []"
proof (induction users arbitrary: lm)
  case Nil
  then show ?case by simp
next
  case (Cons uid users)
  then show ?case
    by (auto simp add: case_prod_beta dest: user_CacheSet_nonempty)
qed

lemma users_unchanged:
  "\<not> statsChanged (fst (lastMessages_get lm e uid))
       (case map_of stats uid of Some ns \<Rightarrow> ns | None \<Rightarrow> []) \<Longrightarrow>
   fst (UpdateNotifications_users env e stats users lm) \<lparr>system = e, user = uid\<rparr>
     = lm \<lparr>system = e, user = uid\<rparr>
   \<and> filter (writesFor e uid) (snd (UpdateNotifications_users env e stats users lm)) = []"
proof (induction users arbitrary: lm)
  case Nil
  show ?case by simp
next
  case (Cons x users)
  let ?lm1 = "fst (UpdateNotifications_user env e stats x lm)"
  have key: "?lm1 \<lparr>system = e, user = uid\<rparr> = lm \<lparr>system = e, user = uid\<rparr>"
  proof (cases "x = uid")
    case True
    with Cons.prems show ?thesis by (simp add: user_unchanged)
  next
    case False
    then show ?thesis by (simp add: user_other_key)
  qed
  have ev: "filter (writesFor e uid) (snd (UpdateNotifications_user env e stats x lm)) = []"
  proof (cases "x = uid")
    case True
    with Cons.prems show ?thesis by (simp add: user_unchanged)
  next
    case False
    then show ?thesis by (simp add: user_other_writes)
  qed
  have "fst (lastMessages_get ?lm1 e uid) = fst (lastMessages_get lm e uid)"
    by (simp add: lastMessages_get_def key)
  with Cons.prems have
    "\<not> statsChanged (fst (lastMessages_get ?lm1 e uid))
       (case map_of stats uid of Some ns \<Rightarrow> ns | None \<Rightarrow> [])"
    by simp
  from Cons.IH [of ?lm1, OF this] key ev show ?case
    by (simp add: case_prod_beta)
qed

lemma users_absent_stays:
  assumes "lm \<lparr>system = e, user = uid\<rparr> = None" and "map_of stats uid = None"
  shows "fst (UpdateNotifications_users env e stats users lm) \<lparr>system = e, user = uid\<rparr> = None
   \<and> filter (writesFor e uid) (snd (UpdateNotifications_users env e stats users lm)) = []"
proof -
  have "\<not> statsChanged (fst (lastMessages_get lm e uid))
       (case map_of stats uid of Some ns \<Rightarrow> ns | None \<Rightarrow> [])"
    using assms by (simp add: lastMessages_get_def statsChanged_Nil_Nil)
  from users_unchanged [OF this] assms(1) show ?thesis by simp
qed

lemma users_all_clear:
  "uid \<in> set users \<Longrightarrow> lm \<lparr>system = e, user = uid\<rparr> = Some oldStats \<Longrightarrow> oldStats \<noteq> [] \<Longrightarrow>
   map_of stats uid = None \<Longrightarrow>
   fst (UpdateNotifications_users env e stats users lm) \<lparr>system = e, user = uid\<rparr> = None
   \<and> filter (writesFor e uid) (snd (UpdateNotifications_users env e stats users lm)) =
       [CacheDelete e uid, PublisherWrite uid (fst (Marshal env (zeroRecordsCount oldStats)))]"
proof (induction users arbitrary: lm)
  case Nil
  then show ?case by simp
next
  case (Cons x users)
  show ?case
  proof (cases "x = uid")
    case True
    have step: "UpdateNotifications_user env e stats uid lm =
        (lm(\<lparr>system = e, user = uid\<rparr> := None),
         [CacheGet e uid, CacheDelete e uid] @ sendUserStats env uid (zeroRecordsCount oldStats))"
      using Cons.prems by (simp add: user_all_clear)
    have rest: "fst (UpdateNotifications_users env e stats users (lm(\<lparr>system = e, user = uid\<rparr> := None)))
             \<lparr>system = e, user = uid\<rparr> = None
       \<and> filter (writesFor e uid)
           (snd (UpdateNotifications_users env e stats users (lm(\<lparr>system = e, user = uid\<rparr> := None)))) = []"
      using Cons.prems(4) by (intro users_absent_stays) simp_all
    show ?thesis
      using True step rest by (simp add: case_prod_beta sendUserStats_writesFor)
  next
    case False
    let ?lm1 = "fst (UpdateNotifications_user env e stats x lm)"
    have key: "?lm1 \<lparr>system = e, user = uid\<rparr> = Some oldStats"
      using False Cons.prems(2) by (simp add: user_other_key)
    have ev: "filter (writesFor e uid) (snd (UpdateNotifications_user env e stats x lm)) = []"
      using False by (simp add: user_other_writes)
    have "uid \<in> set users"
      using False Cons.prems(1) by simp
    from Cons.IH [of ?lm1, OF this key Cons.prems(3) Cons.prems(4)] ev show ?thesis
      by (simp add: case_prod_beta)
  qed
qed

section \<open>Properties of the per-ecosystem update\<close>

lemma getStats_failure:
  "snd (GetNotificationsCount env e users) \<noteq> None \<Longrightarrow>
   getEcosystemNotificationStats env e users =
     (([], snd (GetNotificationsCount env e users)), [DBQuery e users, LogError DBError])"
  by (simp add: getEcosystemNotificationStats_def case_prod_beta)

lemma getStats_success:
  "snd (GetNotificationsCount env e users) = None \<Longrightarrow>
   getEcosystemNotificationStats env e users =
     ((parseRecipientNotification env (fst (GetNotificationsCount env e users)) e, None),
      [DBQuery e users])"
  by (simp add: getEcosystemNotificationStats_def case_prod_beta)

lemma UpdateNotifications_failure:
  "snd (GetNotificationsCount env e users) \<noteq> None \<Longrightarrow>
   UpdateNotifications env e users lm = (lm, [DBQuery e users, LogError DBError])"
  by (simp add: UpdateNotifications_def getStats_failure)

lemma UpdateNotifications_success:
  "snd (GetNotificationsCount env e users) = None \<Longrightarrow>
   UpdateNotifications env e users lm =
     (fst (UpdateNotifications_users env e
             (parseRecipientNotification env (fst (GetNotificationsCount env e users)) e) users lm),
      DBQuery e users #
      snd (UpdateNotifications_users env e
             (parseRecipientNotification env (fst (GetNotificationsCount env e users)) e) users lm))"
  by (simp add: UpdateNotifications_def getStats_success case_prod_beta)




lemma users_empty_absent:
  assumes "noEmptyEntries lm" and "map_of stats uid = None" and "uid \<in> set users"
  shows "fst (UpdateNotifications_users env e stats users lm) \<lparr>system = e, user = uid\<rparr> = None"
proof (cases "lm \<lparr>system = e, user = uid\<rparr>")
  case None
  with assms(2) show ?thesis by (simp add: users_absent_stays)
next
  case (Some oldStats)
  with assms(1) have "oldStats \<noteq> []"
    by (auto simp add: noEmptyEntries_def)
  with Some assms(2,3) show ?thesis by (simp add: users_all_clear)
qed

text \<open>
  C5. A per-ecosystem update started on a cache without empty entries leaves a cache
  without empty entries; every write it makes to the cache stores a non-empty list; and
  after a successful fetch every user of the list whose fresh state is empty has no
  entry.
\<close>

theorem UpdateNotifications_noEmptyEntries:
  assumes "noEmptyEntries lm"
  shows "noEmptyEntries (fst (UpdateNotifications env e users lm))
    \<and> (\<forall>s u recs. CacheSet s u recs \<in> set (snd (UpdateNotifications env e users lm))
          \<longrightarrow> recs \<noteq> [])
    \<and> (snd (GetNotificationsCount env e users) = None \<longrightarrow>
        (\<forall>uid\<in>set users.
           filter (\<lambda>r. rowRecipientID env r = uid) (fst (GetNotificationsCount env e users)) = []
           \<longrightarrow> fst (UpdateNotifications env e users lm) \<lparr>system = e, user = uid\<rparr> = None))"
proof (cases "snd (GetNotificationsCount env e users) = None")
  case False
  have "UpdateNotifications env e users lm = (lm, [DBQuery e users, LogError DBError])"
    using False by (rule UpdateNotifications_failure)
  with assms False show ?thesis by auto
next
  case True
  let ?stats = "parseRecipientNotification env (fst (GetNotificationsCount env e users)) e"
  have inv: "noEmptyEntries (fst (UpdateNotifications_users env e ?stats users lm))"
    using assms by (rule users_noEmptyEntries)
  have sets: "\<forall>s u recs. CacheSet s u recs \<in> set (snd (UpdateNotifications_users env e ?stats users lm))
          \<longrightarrow> recs \<noteq> []"
    using users_CacheSet_nonempty by blast
  have del: "\<forall>uid\<in>set users.
           filter (\<lambda>r. rowRecipientID env r = uid) (fst (GetNotificationsCount env e users)) = []
           \<longrightarrow> fst (UpdateNotifications_users env e ?stats users lm) \<lparr>system = e, user = uid\<rparr> = None"
    using assms by (simp add: users_empty_absent parseRecipientNotification_map_of)
  from inv sets del show ?thesis
    by (simp add: UpdateNotifications_success [OF True])
qed

theorem UpdateNotifications_noEmptyEntries_witness:
  "noEmptyEntries (Map.empty(\<lparr>system = 2, user = 1\<rparr> \<mapsto> [\<lparr>EcosystemID = 2, RoleID = 1, RecordsCount = 3\<rparr>]))
   \<and> noEmptyEntries (fst (UpdateNotifications exampleEnv 2 [1, 2]
        (Map.empty(\<lparr>system = 2, user = 1\<rparr> \<mapsto> [\<lparr>EcosystemID = 2, RoleID = 1, RecordsCount = 3\<rparr>]))))
   \<and> fst (UpdateNotifications exampleEnv 2 [1, 2]
        (Map.empty(\<lparr>system = 2, user = 1\<rparr> \<mapsto> [\<lparr>EcosystemID = 2, RoleID = 1, RecordsCount = 3\<rparr>])))
        \<lparr>system = 2, user = 1\<rparr> = None"
proof -
  have h: "noEmptyEntries (Map.empty(\<lparr>system = 2, user = 1\<rparr> \<mapsto> [\<lparr>EcosystemID = 2, RoleID = 1, RecordsCount = 3\<rparr>]))"
    by (simp add: noEmptyEntries_def)
  show ?thesis
    using h UpdateNotifications_noEmptyEntries [OF h, of exampleEnv 2 "[1, 2]"]
    by (simp add: example_defs)
qed

text \<open>
  C6. If the diff function reports the fresh state of a user unchanged against the
  cached state, the per-ecosystem update leaves the user's cache entry as it was and
  makes no cache write, no cache delete and no call of the publisher for that user.
\<close>

theorem UpdateNotifications_unchanged_user:
  assumes "\<not> statsChanged (fst (lastMessages_get lm e uid))
       (case map_of (fst (fst (getEcosystemNotificationStats env e users))) uid of
          Some ns \<Rightarrow> ns | None \<Rightarrow> [])"
  shows "fst (UpdateNotifications env e users lm) \<lparr>system = e, user = uid\<rparr>
           = lm \<lparr>system = e, user = uid\<rparr>
       \<and> filter (writesFor e uid) (snd (UpdateNotifications env e users lm)) = []"
proof (cases "snd (GetNotificationsCount env e users) = None")
  case False
  then show ?thesis by (simp add: UpdateNotifications_failure)
next
  case True
  let ?stats = "parseRecipientNotification env (fst (GetNotificationsCount env e users)) e"
  from assms have "\<not> statsChanged (fst (lastMessages_get lm e uid))
       (case map_of ?stats uid of Some ns \<Rightarrow> ns | None \<Rightarrow> [])"
    by (simp add: getStats_success [OF True])
  from users_unchanged [OF this] show ?thesis
    by (simp add: UpdateNotifications_success [OF True])
qed

theorem UpdateNotifications_unchanged_user_witness:
  "\<not> statsChanged
       (fst (lastMessages_get
          (Map.empty(\<lparr>system = 1, user = 2\<rparr> \<mapsto> [\<lparr>EcosystemID = 1, RoleID = 1, RecordsCount = 1\<rparr>])) 1 2))
       (case map_of (fst (fst (getEcosystemNotificationStats exampleEnv 1 [1, 2]))) 2 of
          Some ns \<Rightarrow> ns | None \<Rightarrow> [])
   \<and> fst (UpdateNotifications exampleEnv 1 [1, 2]
        (Map.empty(\<lparr>system = 1, user = 2\<rparr> \<mapsto> [\<lparr>EcosystemID = 1, RoleID = 1, RecordsCount = 1\<rparr>])))
        \<lparr>system = 1, user = 2\<rparr> = Some [\<lparr>EcosystemID = 1, RoleID = 1, RecordsCount = 1\<rparr>]
   \<and> filter (writesFor 1 2) (snd (UpdateNotifications exampleEnv 1 [1, 2]
        (Map.empty(\<lparr>system = 1, user = 2\<rparr> \<mapsto> [\<lparr>EcosystemID = 1, RoleID = 1, RecordsCount = 1\<rparr>])))) = []"
proof -
  have h: "\<not> statsChanged
       (fst (lastMessages_get
          (Map.empty(\<lparr>system = 1, user = 2\<rparr> \<mapsto> [\<lparr>EcosystemID = 1, RoleID = 1, RecordsCount = 1\<rparr>])) 1 2))
       (case map_of (fst (fst (getEcosystemNotificationStats exampleEnv 1 [1, 2]))) 2 of
          Some ns \<Rightarrow> ns | None \<Rightarrow> [])"
    by (simp add: example_defs getEcosystemNotificationStats_def parseRecipientNotification_def
          lastMessages_get_def statsChanged_def)
  show ?thesis
    using h UpdateNotifications_unchanged_user [OF h] by simp
qed

lemma zeroRecordsCount_fields:
  "zeroRecordsCount oldStats =
     map (\<lambda>r. \<lparr>EcosystemID = EcosystemID r, RoleID = RoleID r, RecordsCount = 0\<rparr>) oldStats"
  by (simp add: zeroRecordsCount_map)

text \<open>
  C7. After a successful fetch, for a user of the list with a non-empty cached list and
  no fresh rows, the per-ecosystem update leaves no cache entry for the user, and what
  it writes for that user is exactly the delete of the entry followed by one call of
  the publisher, whose payload is the serialized old list with every recordsCount set
  to zero and every ecosystemID and roleID kept.
\<close>

theorem UpdateNotifications_all_clear:
  assumes "snd (GetNotificationsCount env e users) = None"
      and "filter (\<lambda>r. rowRecipientID env r = uid) (fst (GetNotificationsCount env e users)) = []"
      and "uid \<in> set users"
      and "lm \<lparr>system = e, user = uid\<rparr> = Some oldStats"
      and "oldStats \<noteq> []"
  shows "fst (UpdateNotifications env e users lm) \<lparr>system = e, user = uid\<rparr> = None
       \<and> filter (writesFor e uid) (snd (UpdateNotifications env e users lm)) =
           [CacheDelete e uid,
            PublisherWrite uid (fst (Marshal env
              (map (\<lambda>r. \<lparr>EcosystemID = EcosystemID r, RoleID = RoleID r, RecordsCount = 0\<rparr>)
                 oldStats)))]"
proof -
  let ?stats = "parseRecipientNotification env (fst (GetNotificationsCount env e users)) e"
  have "map_of ?stats uid = None"
    using assms(2) by (simp add: parseRecipientNotification_map_of)
  from users_all_clear [where lm = lm and e = e and uid = uid and env = env, OF assms(3) assms(4) assms(5) this]
  show ?thesis
    by (simp add: UpdateNotifications_success [OF assms(1)] zeroRecordsCount_fields)
qed

theorem UpdateNotifications_all_clear_witness:
  "fst (UpdateNotifications exampleEnv 2 [1, 2]
        (Map.empty(\<lparr>system = 2, user = 1\<rparr> \<mapsto> [\<lparr>EcosystemID = 2, RoleID = 1, RecordsCount = 3\<rparr>])))
        \<lparr>system = 2, user = 1\<rparr> = None
   \<and> filter (writesFor 2 1) (snd (UpdateNotifications exampleEnv 2 [1, 2]
        (Map.empty(\<lparr>system = 2, user = 1\<rparr> \<mapsto> [\<lparr>EcosystemID = 2, RoleID = 1, RecordsCount = 3\<rparr>]))))
       = [CacheDelete 2 1, PublisherWrite 1 ''210;'']"
  using UpdateNotifications_all_clear [of exampleEnv 2 "[1, 2]" 1
          "Map.empty(\<lparr>system = 2, user = 1\<rparr> \<mapsto> [\<lparr>EcosystemID = 2, RoleID = 1, RecordsCount = 3\<rparr>])"
          "[\<lparr>EcosystemID = 2, RoleID = 1, RecordsCount = 3\<rparr>]"]
  by (simp add: example_defs)

section \<open>Properties of the cycle drivers\<close>

lemma getStats_isCacheAccess:
  "filter isCacheAccess (snd (getEcosystemNotificationStats env e users)) = []"
  by (simp add: getEcosystemNotificationStats_def case_prod_beta)

lemma batch_stats_isCacheAccess:
  "filter isCacheAccess (SendNotificationsByRequest_stats env stats) = []"
  by (induction stats) (auto simp add: sendUserStats_isCacheAccess)

lemma batch_range_frame:
  "SendNotificationsByRequest_range env m lm =
     (lm, snd (SendNotificationsByRequest_range env m lm'))"
proof (induction m)
  case Nil
  show ?case by simp
next
  case (Cons p m)
  obtain e users where p: "p = (e, users)" by (cases p)
  have a: "fst (SendNotificationsByRequest_range env m lm) = lm"
    using Cons.IH by simp
  have b: "snd (SendNotificationsByRequest_range env m lm)
             = snd (SendNotificationsByRequest_range env m lm')"
    using Cons.IH by simp
  show ?case
    unfolding p by (simp add: case_prod_beta Let_def a b)
qed

lemma batch_range_isCacheAccess:
  "filter isCacheAccess (snd (SendNotificationsByRequest_range env m lm)) = []"
proof (induction m)
  case Nil
  show ?case by simp
next
  case (Cons p m)
  obtain e users where p: "p = (e, users)" by (cases p)
  show ?case
    unfolding p
    by (simp add: case_prod_beta Let_def Cons.IH getStats_isCacheAccess
          batch_stats_isCacheAccess)
qed

text \<open>
  C8. The batch cycle returns the cache it was given, its events are the same whatever
  the cache holds, and none of them is a cache read, write or delete.
\<close>

theorem SendNotificationsByRequest_bypasses_cache:
  "fst (SendNotificationsByRequest env systemUsers lm) = lm
   \<and> snd (SendNotificationsByRequest env systemUsers lm)
       = snd (SendNotificationsByRequest env systemUsers lm')
   \<and> filter isCacheAccess (snd (SendNotificationsByRequest env systemUsers lm)) = []"
proof -
  have "SendNotificationsByRequest env systemUsers lm =
          (lm, snd (SendNotificationsByRequest env systemUsers lm'))"
    unfolding SendNotificationsByRequest_def by (rule batch_range_frame)
  moreover have "filter isCacheAccess (snd (SendNotificationsByRequest env systemUsers lm)) = []"
    unfolding SendNotificationsByRequest_def by (rule batch_range_isCacheAccess)
  ultimately show ?thesis by simp
qed

theorem SendNotificationsByRequest_bypasses_cache_witness:
  "SendNotificationsByRequest exampleEnv [(1, [1, 2]), (3, [1])]
     (Map.empty(\<lparr>system = 1, user = 2\<rparr> \<mapsto> [\<lparr>EcosystemID = 1, RoleID = 1, RecordsCount = 1\<rparr>]))
   = (Map.empty(\<lparr>system = 1, user = 2\<rparr> \<mapsto> [\<lparr>EcosystemID = 1, RoleID = 1, RecordsCount = 1\<rparr>]),
      [DBQuery 1 [1, 2], PublisherWrite 1 ''112;123;'', PublisherWrite 2 ''111;'',
       DBQuery 3 [1], LogError DBError])"
  using SendNotificationsByRequest_bypasses_cache [of exampleEnv "[(1, [1, 2]), (3, [1])]"
          "Map.empty(\<lparr>system = 1, user = 2\<rparr> \<mapsto> [\<lparr>EcosystemID = 1, RoleID = 1, RecordsCount = 1\<rparr>])"
          Map.empty]
  by (simp add: prod_eq_iff example_defs SendNotificationsByRequest_def
        getEcosystemNotificationStats_def parseRecipientNotification_def sendUserStats_def)

lemma range_append:
  "SendNotifications_range env (xs @ ys) lm =
     (fst (SendNotifications_range env ys (fst (SendNotifications_range env xs lm))),
      snd (SendNotifications_range env xs lm)
        @ snd (SendNotifications_range env ys (fst (SendNotifications_range env xs lm))))"
proof (induction xs arbitrary: lm)
  case Nil
  show ?case by simp
next
  case (Cons p xs)
  obtain e users where p: "p = (e, users)" by (cases p)
  show ?case
    unfolding p by (simp add: case_prod_beta Cons.IH)
qed

text \<open>
  C9. If the fetch for an ecosystem fails, its update leaves the cache as it was and
  does nothing but the query and the log entry: no cache read, write or delete and no
  call of the publisher. In a full-roster pass that visits this ecosystem, the
  ecosystems visited after it are updated from the cache that the ones before it left,
  and the resulting cache is that of the pass without the failing ecosystem.
\<close>

theorem UpdateNotifications_fetch_failure:
  assumes "snd (GetNotificationsCount env e users) \<noteq> None"
  shows "UpdateNotifications env e users lm = (lm, [DBQuery e users, LogError DBError])
    \<and> (rangeUsers env systemUsers = before @ (e, users) # after \<longrightarrow>
         SendNotifications env systemUsers lm =
           (fst (SendNotifications_range env after (fst (SendNotifications_range env before lm))),
            snd (SendNotifications_range env before lm)
              @ [DBQuery e users, LogError DBError]
              @ snd (SendNotifications_range env after (fst (SendNotifications_range env before lm))))
       \<and> fst (SendNotifications env systemUsers lm)
           = fst (SendNotifications_range env (before @ after) lm))"
proof -
  have one: "UpdateNotifications env e users lm' = (lm', [DBQuery e users, LogError DBError])" for lm'
    using assms by (rule UpdateNotifications_failure)
  have "SendNotifications_range env ((e, users) # after) lm' =
          (fst (SendNotifications_range env after lm'),
           [DBQuery e users, LogError DBError] @ snd (SendNotifications_range env after lm'))" for lm'
    by (simp add: one case_prod_beta)
  then show ?thesis
    by (simp add: one SendNotifications_def range_append)
qed

theorem UpdateNotifications_fetch_failure_witness:
  "snd (GetNotificationsCount exampleEnv 3 [1]) \<noteq> None
   \<and> SendNotifications exampleEnv [(3, [1]), (2, [1, 2])]
     (Map.empty(\<lparr>system = 2, user = 1\<rparr> \<mapsto> [\<lparr>EcosystemID = 2, RoleID = 1, RecordsCount = 3\<rparr>]))
   = (Map.empty,
      [DBQuery 3 [1], LogError DBError,
       DBQuery 2 [1, 2], CacheGet 2 1, CacheDelete 2 1, PublisherWrite 1 ''210;'', CacheGet 2 2])"
proof -
  have h: "snd (GetNotificationsCount exampleEnv 3 [1]) \<noteq> None"
    by (simp add: example_defs)
  have r: "rangeUsers exampleEnv [(3, [1]), (2, [1, 2])] = [] @ (3, [1]) # [(2, [1, 2])]"
    by (simp add: example_defs)
  show ?thesis
    using h UpdateNotifications_fetch_failure [OF h, of
          "Map.empty(\<lparr>system = 2, user = 1\<rparr> \<mapsto> [\<lparr>EcosystemID = 2, RoleID = 1, RecordsCount = 3\<rparr>])"
          "[(3, [1]), (2, [1, 2])]" "[]" "[(2, [1, 2])]"] r
    by (simp add: example_defs UpdateNotifications_def getEcosystemNotificationStats_def
          parseRecipientNotification_def UpdateNotifications_user_def lastMessages_get_def
          lastMessages_delete_def lastMessages_set_def statsChanged_def sendUserStats_def
          zeroRecordsCount_def)
qed

lemma batch_stats_PublisherWrite:
  "PublisherWrite uid payload \<in> set (SendNotificationsByRequest_stats env stats) \<longleftrightarrow>
     (\<exists>notifications. (uid, notifications) \<in> set stats \<and> payload = fst (Marshal env notifications))"
  by (induction stats) (auto simp add: sendUserStats_PublisherWrite)

lemma getStats_PublisherWrite:
  "PublisherWrite uid payload \<notin> set (snd (getEcosystemNotificationStats env e users))"
  by (simp add: getEcosystemNotificationStats_def case_prod_beta)

lemma parse_entry:
  assumes "(uid, notifications) \<in> set (parseRecipientNotification env rows e)"
  shows "filter (\<lambda>r. rowRecipientID env r = uid) rows \<noteq> []
       \<and> notifications = map (rowNotification env e) (filter (\<lambda>r. rowRecipientID env r = uid) rows)"
proof -
  have "map_of (parseRecipientNotification env rows e) uid = Some notifications"
    using assms parseRecipientNotification_distinct by (simp add: map_of_eq_Some_iff)
  then show ?thesis
    by (simp add: parseRecipientNotification_map_of split: if_splits)
qed

lemma batch_range_PublisherWrite:
  assumes "\<forall>m. set (rangeStats env m) \<subseteq> set m"
      and "PublisherWrite uid payload \<in> set (snd (SendNotificationsByRequest_range env m lm))"
  shows "\<exists>(e, users)\<in>set m.
           snd (GetNotificationsCount env e users) = None
         \<and> filter (\<lambda>r. rowRecipientID env r = uid) (fst (GetNotificationsCount env e users)) \<noteq> []
         \<and> payload = fst (Marshal env (map (rowNotification env e)
               (filter (\<lambda>r. rowRecipientID env r = uid) (fst (GetNotificationsCount env e users)))))"
  using assms(2)
proof (induction m)
  case Nil
  then show ?case by simp
next
  case (Cons p m)
  obtain e users where p: "p = (e, users)" by (cases p)
  let ?rows = "fst (GetNotificationsCount env e users)"
  from Cons.prems consider
      (here) "snd (GetNotificationsCount env e users) = None"
         "PublisherWrite uid payload \<in> set (SendNotificationsByRequest_stats env
             (rangeStats env (parseRecipientNotification env ?rows e)))"
    | (later) "PublisherWrite uid payload \<in> set (snd (SendNotificationsByRequest_range env m lm))"
    unfolding p
    by (cases "snd (GetNotificationsCount env e users) = None")
       (auto simp add: case_prod_beta Let_def getStats_PublisherWrite getStats_success getStats_failure)
  then show ?case
  proof cases
    case here
    from here(2) obtain notifications where
      "(uid, notifications) \<in> set (rangeStats env (parseRecipientNotification env ?rows e))"
      and pay: "payload = fst (Marshal env notifications)"
      by (auto simp add: batch_stats_PublisherWrite)
    with assms(1) have "(uid, notifications) \<in> set (parseRecipientNotification env ?rows e)"
      by blast
    from parse_entry [OF this] pay here(1) show ?thesis
      unfolding p by simp
  next
    case later
    from Cons.IH [OF this] show ?thesis by auto
  qed
qed

text \<open>
  C10. Provided the \<^verbatim>\<open>range\<close> statements visit only entries of the map they range
  over, every call of the publisher made by the batch cycle is for a user who is the
  recipient of at least one row of a successful fetch for an ecosystem of the mapping,
  and its payload is the serialization of the non-empty list of the records of these
  rows: a user without rows gets no call, and no empty list is published.
\<close>

theorem SendNotificationsByRequest_publishes_recipients_only:
  assumes "\<forall>m. set (rangeStats env m) \<subseteq> set m"
      and "\<forall>m. set (rangeUsers env m) \<subseteq> set m"
      and "PublisherWrite uid payload \<in> set (snd (SendNotificationsByRequest env systemUsers lm))"
  shows "\<exists>(e, users)\<in>set systemUsers.
           snd (GetNotificationsCount env e users) = None
         \<and> filter (\<lambda>r. rowRecipientID env r = uid) (fst (GetNotificationsCount env e users)) \<noteq> []
         \<and> payload = fst (Marshal env (map (rowNotification env e)
               (filter (\<lambda>r. rowRecipientID env r = uid) (fst (GetNotificationsCount env e users)))))"
proof -
  from assms(3) have
    "PublisherWrite uid payload \<in> set (snd (SendNotificationsByRequest_range env (rangeUsers env systemUsers) lm))"
    by (simp add: SendNotificationsByRequest_def)
  from batch_range_PublisherWrite [OF assms(1) this] assms(2) show ?thesis
    by blast
qed

theorem SendNotificationsByRequest_publishes_recipients_only_witness:
  "(\<forall>m. set (rangeStats exampleEnv m) \<subseteq> set m)
   \<and> (\<forall>m. set (rangeUsers exampleEnv m) \<subseteq> set m)
   \<and> PublisherWrite 2 ''111;'' \<in> set (snd (SendNotificationsByRequest exampleEnv [(1, [1, 2]), (2, [1, 2])] Map.empty))
   \<and> snd (GetNotificationsCount exampleEnv 1 [1, 2]) = None
   \<and> filter (\<lambda>r. rowRecipientID exampleEnv r = 2) (fst (GetNotificationsCount exampleEnv 1 [1, 2])) \<noteq> []
   \<and> ''111;'' = fst (Marshal exampleEnv (map (rowNotification exampleEnv 1)
               (filter (\<lambda>r. rowRecipientID exampleEnv r = 2) (fst (GetNotificationsCount exampleEnv 1 [1, 2])))))
   \<and> snd (SendNotificationsByRequest exampleEnv [(2, [1, 2])] Map.empty) = [DBQuery 2 [1, 2]]"
proof -
  have h1: "\<forall>m. set (rangeStats exampleEnv m) \<subseteq> set m"
    by (simp add: exampleEnv_def)
  have h2: "\<forall>m. set (rangeUsers exampleEnv m) \<subseteq> set m"
    by (simp add: exampleEnv_def)
  have h3: "PublisherWrite 2 ''111;'' \<in> set (snd (SendNotificationsByRequest exampleEnv [(1, [1, 2]), (2, [1, 2])] Map.empty))"
    by (simp add: example_defs SendNotificationsByRequest_def
        getEcosystemNotificationStats_def parseRecipientNotification_def sendUserStats_def)
  show ?thesis
    using h1 h2 h3 SendNotificationsByRequest_publishes_recipients_only [OF h1 h2 h3]
    by (simp add: example_defs SendNotificationsByRequest_def
        getEcosystemNotificationStats_def parseRecipientNotification_def sendUserStats_def)
qed

end
